theory Spec2Isabelle
  imports Complex_Main
begin

section \<open>JavaScript values shared by the services\<close>

text \<open>
  A thrown value is always an \<open>Error\<close> object here: a gRPC error carries a numeric
  \<open>code\<close> and a \<open>message\<close>, a plain \<open>new Error(msg)\<close> only the message.
\<close>

datatype js_error = JsError (err_code: "int option") (err_message: string)

text \<open>Payloads typed \<open>any\<close> in the source (vitals, threshold ranges) are JSON values.\<close>

datatype json = JNull | JBool bool | JNum real | JStr string
  | JArr "json list" | JObj "(string \<times> json) list"

text \<open>
  Truthiness of an optional string, as used by \<open>x || y\<close>, \<open>if (x)\<close> and \<open>!x\<close>:
  \<open>undefined\<close>, \<open>null\<close> and the empty string are falsy.
\<close>

fun truthy :: "string option \<Rightarrow> bool" where
  "truthy None = False"
| "truthy (Some s) = (s \<noteq> [])"

text \<open>\<open>x || y\<close> on strings: the left operand unless it is falsy.\<close>

fun or_else :: "string option \<Rightarrow> string \<Rightarrow> string" where
  "or_else None y = y"
| "or_else (Some s) y = (if s \<noteq> [] then s else y)"

text \<open>Decimal rendering of an integer inside a template string.\<close>

function show_nat :: "nat \<Rightarrow> string" where
  "show_nat n =
     (if n < 10 then [''0123456789'' ! n]
      else show_nat (n div 10) @ [''0123456789'' ! (n mod 10)])"
  by pat_completeness auto
termination
  by (relation "measure id") auto

declare show_nat.simps [simp del]

definition show_int :: "int \<Rightarrow> string" where
  "show_int i = (if i < 0 then CHR ''-'' # show_nat (nat (- i)) else show_nat (nat i))"

text \<open>
  A JavaScript value that is a number or a string, as an enum-typed field of a
  decoded protobuf message can be, with strict equality \<open>===\<close> as equality of
  the datatype (a string is never \<open>===\<close> a number) and its rendering inside a
  template string.
\<close>

datatype js_value = JsNumber int | JsString string

fun js_to_string :: "js_value \<Rightarrow> string" where
  "js_to_string (JsNumber n) = show_int n"
| "js_to_string (JsString s) = s"

text \<open>
  Modelled from the spec: the \<open>Status\<close> enum of \<open>registry.proto\<close>, a file the
  services load at run time. The registry statuses are success = 1,
  not_found = 2, invalid_request = 3 and internal_error = 4; the service
  documentation and the comments in the code name them \<open>STATUS_SUCCESS\<close>,
  \<open>STATUS_NOT_FOUND\<close>, \<open>STATUS_INVALID_REQUEST\<close> and \<open>STATUS_INTERNAL_ERROR\<close>.
\<close>

datatype Status =
  STATUS_SUCCESS | STATUS_NOT_FOUND | STATUS_INVALID_REQUEST | STATUS_INTERNAL_ERROR

fun status_name :: "Status \<Rightarrow> string" where
  "status_name STATUS_SUCCESS = ''STATUS_SUCCESS''"
| "status_name STATUS_NOT_FOUND = ''STATUS_NOT_FOUND''"
| "status_name STATUS_INVALID_REQUEST = ''STATUS_INVALID_REQUEST''"
| "status_name STATUS_INTERNAL_ERROR = ''STATUS_INTERNAL_ERROR''"

text \<open>
  Both registry clients (gateway \<open>registry.service.ts\<close> lines 34-40, enrichment
  \<open>registry.service.ts\<close> \<open>connect\<close>) load the package definition with
  \<open>enums: String\<close>: the callback receives an enum field as the name of its value,
  a string.
\<close>

definition enums_String :: "Status \<Rightarrow> js_value" where
  "enums_String st = JsString (status_name st)"

text \<open>
  The callback of a gRPC unary call receives \<open>(error, response)\<close>. \<open>RpcFail\<close> is a
  truthy \<open>error\<close> (transport failure, deadline exceeded, or a gRPC status such as
  NOT_FOUND); \<open>RpcReply st payload\<close> is a response message whose \<open>status\<close> field
  the registry set to \<open>st\<close>, with its optional entity (\<open>response.device\<close>,
  \<open>response.patient\<close>, \<open>response.profile\<close>). The service code reads
  \<open>response.status\<close> as \<open>enums_String st\<close>.
\<close>

datatype 'r rpc_outcome = RpcFail js_error | RpcReply Status "'r option"

definition grpc_status_NOT_FOUND :: int where
  "grpc_status_NOT_FOUND = 5"

section \<open>Telemetry enrichment service\<close>

subsection \<open>Registry entities (registry.service.ts of telemetry-enrichment)\<close>

text \<open>
  \<open>Device\<close> and \<open>Patient\<close> are the interfaces of the service, \<open>device_msg\<close> and
  \<open>patient_msg\<close> the objects \<open>response.device\<close> and \<open>response.patient\<close> as the
  callback receives them. The interfaces declare \<open>status\<close> and \<open>gender\<close> as
  numbers; these are enum fields, so what arrives is whatever the client decodes.
\<close>

record Device =
  dev_device_id :: string
  dev_device_type :: "string option"
  dev_patient_id :: "string option"
  dev_status :: "js_value option"
  dev_metadata :: "(string \<times> string) list"
  dev_registered_at :: "string option"
  dev_updated_at :: "string option"

record device_msg =
  dm_device_id :: "string option"
  dm_device_type :: "string option"
  dm_patient_id :: "string option"
  dm_status :: "js_value option"
  dm_metadata :: "(string \<times> string) list option"
  dm_registered_at :: "string option"
  dm_updated_at :: "string option"

record Patient =
  pat_patient_id :: string
  pat_age :: "int option"
  pat_gender :: "js_value option"
  pat_medical_conditions :: "string list"
  pat_medications :: "string list"
  pat_allergies :: "string list"
  pat_metadata :: "(string \<times> string) list"
  pat_registered_at :: "string option"
  pat_updated_at :: "string option"

record patient_msg =
  pm_patient_id :: "string option"
  pm_age :: "int option"
  pm_gender :: "js_value option"
  pm_medical_conditions :: "string list option"
  pm_medications :: "string list option"
  pm_allergies :: "string list option"
  pm_metadata :: "(string \<times> string) list option"
  pm_registered_at :: "string option"
  pm_updated_at :: "string option"

text \<open>
  \<open>ThresholdProfile\<close> has only optional fields, and the service copies
  \<open>response.profile?.f\<close> field by field, so one record serves for both the wire
  message and the interface.
\<close>

record ThresholdProfile =
  tp_profile_id :: "string option"
  tp_patient_id :: "string option"
  tp_device_id :: "string option"
  tp_heart_rate :: "json option"
  tp_blood_pressure :: "json option"
  tp_temperature :: "json option"
  tp_oxygen_saturation :: "json option"
  tp_respiratory_rate :: "json option"
  tp_created_at :: "string option"
  tp_updated_at :: "string option"

subsection \<open>Events (enrichment.service.ts)\<close>

record NormalizedTelemetryEvent =
  ne_event_id :: string
  ne_trace_id :: "string option"
  ne_event_type :: string
  ne_version :: "string option"
  ne_timestamp :: string
  ne_source_event_id :: "string option"
  ne_device_id :: string
  ne_patient_id :: "string option"
  ne_vitals :: json
  ne_validation_status :: "string option"
  ne_normalization_metadata :: "json option"

record patientProfile =
  pp_age :: "int option"
  pp_sex :: "string option"

record thresholds =
  th_heart_rate :: "json option"
  th_blood_pressure :: "json option"
  th_temperature :: "json option"
  th_oxygen_saturation :: "json option"
  th_respiratory_rate :: "json option"

record enrichment_metadata =
  enriched_at :: string
  enrichment_sources :: "string list"

record EnrichedTelemetryEvent =
  ee_event_id :: string
  ee_trace_id :: string
  ee_event_type :: string
  ee_version :: string
  ee_timestamp :: string
  ee_source_event_id :: string
  ee_device_id :: string
  ee_patient_id :: "string option"
  ee_orphan :: "bool option"
  ee_patientProfile :: "patientProfile option"
  ee_thresholds :: "thresholds option"
  ee_vitals :: json
  ee_enrichment_metadata :: enrichment_metadata

subsection \<open>The world the enricher runs in\<close>

text \<open>
  Configuration (\<open>ConfigService\<close>), the connection flag of the registry client, the
  registry's answer to each RPC attempt (indexed by the attempt number of
  \<open>callWithRetry\<close>), the successive values of \<open>uuidv4()\<close> and of
  \<open>new Date().toISOString()\<close>, and the Kafka producer of the service.
  \<open>KafkaProducerService.produceEnrichedTelemetry\<close> is a collaborator of
  \<open>EnrichmentService\<close>: it either resolves (\<open>None\<close>) or rejects with an error.
\<close>

record enricher_env =
  registryEnabled :: bool
  isConnected :: bool
  registryMaxRetries :: int
  registryRetryDelayMs :: int
  GetDevice :: "string \<Rightarrow> int \<Rightarrow> device_msg rpc_outcome"
  GetPatient :: "string \<Rightarrow> int \<Rightarrow> patient_msg rpc_outcome"
  GetThresholdProfile :: "string \<Rightarrow> string option \<Rightarrow> int \<Rightarrow> ThresholdProfile rpc_outcome"
  uuidv4 :: "nat \<Rightarrow> string"
  now :: "nat \<Rightarrow> string"
  produceEnrichedTelemetry :: "EnrichedTelemetryEvent \<Rightarrow> js_error option"

text \<open>
  What a run does besides returning: the RPC attempts it makes, its waits
  (\<open>setTimeout\<close> delays in milliseconds) and its \<open>producer.send\<close> attempts.
\<close>

datatype io_event = RpcCall string int | Sleep int | KafkaSend int

subsection \<open>RegistryService.callWithRetry\<close>

function callWithRetry_loop ::
  "int \<Rightarrow> int \<Rightarrow> string \<Rightarrow> (int \<Rightarrow> js_error + 'a) \<Rightarrow> int \<Rightarrow> js_error option
     \<Rightarrow> io_event list \<times> (js_error + 'a)" where
  "callWithRetry_loop maxRetries delayMs operationName operation attempt lastError =
     (if attempt \<le> maxRetries then
        (case operation attempt of
           Inr v \<Rightarrow> ([RpcCall operationName attempt], Inr v)
         | Inl e \<Rightarrow>
             (case callWithRetry_loop maxRetries delayMs operationName operation
                     (attempt + 1) (Some e) of
                (evs, r) \<Rightarrow>
                  (RpcCall operationName attempt
                     # (if attempt < maxRetries then [Sleep (delayMs * attempt)] else [])
                     @ evs, r)))
      else ([], Inl (case lastError of
                       Some e \<Rightarrow> e
                     | None \<Rightarrow> JsError None (operationName @ '' failed''))))"
  by pat_completeness auto
termination
  by (relation "measure (\<lambda>(maxRetries, delayMs, operationName, operation, attempt, lastError).
                  nat (maxRetries + 1 - attempt))") auto

declare callWithRetry_loop.simps [simp del]

definition callWithRetry ::
  "enricher_env \<Rightarrow> (int \<Rightarrow> js_error + 'a) \<Rightarrow> string \<Rightarrow> io_event list \<times> (js_error + 'a)" where
  "callWithRetry env operation operationName =
     callWithRetry_loop (registryMaxRetries env) (registryRetryDelayMs env)
       operationName operation 1 None"

subsection \<open>RegistryService.getDevice, getPatient, getThresholdProfile\<close>

definition getDevice_operation :: "enricher_env \<Rightarrow> string \<Rightarrow> int \<Rightarrow> js_error + Device option" where
  "getDevice_operation env deviceId attempt =
     (case GetDevice env deviceId attempt of
        RpcFail error \<Rightarrow>
          (if err_code error = Some grpc_status_NOT_FOUND then Inr None else Inl error)
      | RpcReply st dev \<Rightarrow>
          (if enums_String st = JsNumber 1 then
             Inr (Some \<lparr>
               dev_device_id =
                 or_else (Option.bind dev dm_device_id) deviceId,
               dev_device_type = Option.bind dev dm_device_type,
               dev_patient_id = Option.bind dev dm_patient_id,
               dev_status = Option.bind dev dm_status,
               dev_metadata = (case Option.bind dev dm_metadata of None \<Rightarrow> [] | Some m \<Rightarrow> m),
               dev_registered_at = Option.bind dev dm_registered_at,
               dev_updated_at = Option.bind dev dm_updated_at \<rparr>)
           else if enums_String st = JsNumber 2 then Inr None
           else Inl (JsError None
                       (''Registry returned status: '' @ js_to_string (enums_String st)))))"

definition getDevice :: "enricher_env \<Rightarrow> string \<Rightarrow> io_event list \<times> (js_error + Device option)" where
  "getDevice env deviceId =
     (if \<not> registryEnabled env then ([], Inr None)
      else if \<not> isConnected env then ([], Inr None)
      else callWithRetry env (getDevice_operation env deviceId) ''GetDevice'')"

definition getPatient_operation :: "enricher_env \<Rightarrow> string \<Rightarrow> int \<Rightarrow> js_error + Patient option" where
  "getPatient_operation env patientId attempt =
     (case GetPatient env patientId attempt of
        RpcFail error \<Rightarrow>
          (if err_code error = Some grpc_status_NOT_FOUND then Inr None else Inl error)
      | RpcReply st pat \<Rightarrow>
          (if enums_String st = JsNumber 1 then
             Inr (Some \<lparr>
               pat_patient_id =
                 or_else (Option.bind pat pm_patient_id) patientId,
               pat_age = Option.bind pat pm_age,
               pat_gender = Option.bind pat pm_gender,
               pat_medical_conditions =
                 (case Option.bind pat pm_medical_conditions of None \<Rightarrow> [] | Some m \<Rightarrow> m),
               pat_medications =
                 (case Option.bind pat pm_medications of None \<Rightarrow> [] | Some m \<Rightarrow> m),
               pat_allergies =
                 (case Option.bind pat pm_allergies of None \<Rightarrow> [] | Some m \<Rightarrow> m),
               pat_metadata = (case Option.bind pat pm_metadata of None \<Rightarrow> [] | Some m \<Rightarrow> m),
               pat_registered_at = Option.bind pat pm_registered_at,
               pat_updated_at = Option.bind pat pm_updated_at \<rparr>)
           else if enums_String st = JsNumber 2 then Inr None
           else Inl (JsError None
                       (''Registry returned status: '' @ js_to_string (enums_String st)))))"

definition getPatient :: "enricher_env \<Rightarrow> string \<Rightarrow> io_event list \<times> (js_error + Patient option)" where
  "getPatient env patientId =
     (if \<not> registryEnabled env then ([], Inr None)
      else if \<not> isConnected env then ([], Inr None)
      else callWithRetry env (getPatient_operation env patientId) ''GetPatient'')"

definition getThresholdProfile_operation ::
  "enricher_env \<Rightarrow> string \<Rightarrow> string option \<Rightarrow> int \<Rightarrow> js_error + ThresholdProfile option" where
  "getThresholdProfile_operation env patientId deviceId attempt =
     (case GetThresholdProfile env patientId (if truthy deviceId then deviceId else None) attempt of
        RpcFail error \<Rightarrow>
          (if err_code error = Some grpc_status_NOT_FOUND then Inr None else Inl error)
      | RpcReply st prof \<Rightarrow>
          (if enums_String st = JsNumber 1 then
             Inr (Some \<lparr>
               tp_profile_id = Option.bind prof tp_profile_id,
               tp_patient_id = Option.bind prof tp_patient_id,
               tp_device_id = Option.bind prof tp_device_id,
               tp_heart_rate = Option.bind prof tp_heart_rate,
               tp_blood_pressure = Option.bind prof tp_blood_pressure,
               tp_temperature = Option.bind prof tp_temperature,
               tp_oxygen_saturation = Option.bind prof tp_oxygen_saturation,
               tp_respiratory_rate = Option.bind prof tp_respiratory_rate,
               tp_created_at = Option.bind prof tp_created_at,
               tp_updated_at = Option.bind prof tp_updated_at \<rparr>)
           else if enums_String st = JsNumber 2 then Inr None
           else Inl (JsError None
                       (''Registry returned status: '' @ js_to_string (enums_String st)))))"

definition getThresholdProfile ::
  "enricher_env \<Rightarrow> string \<Rightarrow> string option
     \<Rightarrow> io_event list \<times> (js_error + ThresholdProfile option)" where
  "getThresholdProfile env patientId deviceId =
     (if \<not> registryEnabled env then ([], Inr None)
      else if \<not> isConnected env then ([], Inr None)
      else callWithRetry env (getThresholdProfile_operation env patientId deviceId)
             ''GetThresholdProfile'')"

subsection \<open>EnrichmentService.mapGenderToString\<close>

fun mapGenderToString :: "js_value option \<Rightarrow> string option" where
  "mapGenderToString None = None"
| "mapGenderToString (Some gender) =
     (if gender = JsNumber 1 then Some ''male''
      else if gender = JsNumber 2 then Some ''female''
      else if gender = JsNumber 3 then Some ''other''
      else Some ''unknown'')"

subsection \<open>EnrichmentService.enrichTelemetry\<close>

text \<open>
  Step 1 (lines 57-78): the patient id and the orphan flag after the device lookup
  has returned \<open>device\<close> (\<open>None\<close> is \<open>null\<close>).
\<close>

definition resolve_patient :: "Device option \<Rightarrow> string option \<Rightarrow> string option \<times> bool" where
  "resolve_patient device inputPatientId =
     (if (case device of None \<Rightarrow> False | Some d \<Rightarrow> truthy (dev_patient_id d))
      then (Option.bind device dev_patient_id, False)
      else (inputPatientId, \<not> truthy inputPatientId))"

text \<open>
  Step 2 (lines 86-128), the body of the inner \<open>try\<close>: an exception of either
  lookup leaves the block, is logged, and the values assigned so far are kept.
\<close>

definition fetch_context ::
  "enricher_env \<Rightarrow> string \<Rightarrow> string
     \<Rightarrow> io_event list \<times> patientProfile option \<times> thresholds option \<times> string list" where
  "fetch_context env patientId deviceId =
     (case getPatient env patientId of
        (io1, Inl error) \<Rightarrow> (io1, None, None, [])
      | (io1, Inr patient) \<Rightarrow>
          (let (patientProfile, sources1) =
                 (case patient of
                    None \<Rightarrow> (None, [])
                  | Some p \<Rightarrow>
                      (Some \<lparr> pp_age = pat_age p, pp_sex = mapGenderToString (pat_gender p) \<rparr>,
                       [''patient_registry'']))
           in case getThresholdProfile env patientId (Some deviceId) of
                (io2, Inl error) \<Rightarrow> (io1 @ io2, patientProfile, None, sources1)
              | (io2, Inr thresholdProfile) \<Rightarrow>
                  (case thresholdProfile of
                     None \<Rightarrow> (io1 @ io2, patientProfile, None, sources1)
                   | Some t \<Rightarrow>
                       (io1 @ io2, patientProfile,
                        Some \<lparr> th_heart_rate = tp_heart_rate t,
                               th_blood_pressure = tp_blood_pressure t,
                               th_temperature = tp_temperature t,
                               th_oxygen_saturation = tp_oxygen_saturation t,
                               th_respiratory_rate = tp_respiratory_rate t \<rparr>,
                        sources1 @ [''threshold_registry'']))))"

text \<open>Lines 85 and 129: the lookups run only for a truthy patient id of a non-orphan.\<close>

definition enrich_context ::
  "enricher_env \<Rightarrow> string \<Rightarrow> string option \<times> bool
     \<Rightarrow> io_event list \<times> patientProfile option \<times> thresholds option \<times> string list" where
  "enrich_context env deviceId resolved =
     (case resolved of
        (patientId, orphan) \<Rightarrow>
          (case patientId of
             None \<Rightarrow> ([], None, None, [])
           | Some p \<Rightarrow>
               (if p \<noteq> [] \<and> \<not> orphan then fetch_context env p deviceId
                else ([], None, None, []))))"

text \<open>
  Step 3 (lines 131-152). \<open>uuidv4()\<close> is called for the trace id only when the input
  has no truthy \<open>trace_id\<close>, and then once more for \<open>event_id\<close>; the clock is read
  for \<open>timestamp\<close> and again for \<open>enriched_at\<close>.
\<close>

definition build_enriched_event ::
  "enricher_env \<Rightarrow> NormalizedTelemetryEvent \<Rightarrow> string option \<Rightarrow> bool
     \<Rightarrow> patientProfile option \<Rightarrow> thresholds option \<Rightarrow> string list
     \<Rightarrow> EnrichedTelemetryEvent" where
  "build_enriched_event env normalizedEvent patientId orphan patientProfile thresholds
       enrichmentSources =
     (let traceId = or_else (ne_trace_id normalizedEvent) (''trace_'' @ uuidv4 env 0);
          next_uuid = (if truthy (ne_trace_id normalizedEvent) then 0 else 1)
      in \<lparr> ee_event_id = uuidv4 env next_uuid,
           ee_trace_id = traceId,
           ee_event_type = ''telemetry.enriched'',
           ee_version = or_else (ne_version normalizedEvent) ''1.0.0'',
           ee_timestamp = now env 0,
           ee_source_event_id = ne_event_id normalizedEvent,
           ee_device_id = ne_device_id normalizedEvent,
           ee_patient_id = (if truthy patientId then patientId else None),
           ee_orphan = (if orphan then Some True else None),
           ee_patientProfile = patientProfile,
           ee_thresholds = thresholds,
           ee_vitals = ne_vitals normalizedEvent,
           ee_enrichment_metadata =
             \<lparr> enriched_at = now env 1,
               enrichment_sources =
                 (if length enrichmentSources > 0 then enrichmentSources else [''none'']) \<rparr> \<rparr>)"

text \<open>
  The whole handler. \<open>getDevice\<close> is awaited outside the inner \<open>try\<close>: its rejection
  reaches the outer \<open>catch\<close>, which logs and rethrows. The result \<open>Inr e\<close> means that
  \<open>produceEnrichedTelemetry(e)\<close> resolved and the handler returned; \<open>Inl\<close> is the
  exception the handler throws, in which case nothing was published.
\<close>

definition enrichTelemetry ::
  "enricher_env \<Rightarrow> NormalizedTelemetryEvent
     \<Rightarrow> io_event list \<times> (js_error + EnrichedTelemetryEvent)" where
  "enrichTelemetry env normalizedEvent =
     (let deviceId = ne_device_id normalizedEvent
      in case getDevice env deviceId of
           (io1, Inl error) \<Rightarrow> (io1, Inl error)
         | (io1, Inr device) \<Rightarrow>
             (let resolved = resolve_patient device (ne_patient_id normalizedEvent)
              in case enrich_context env deviceId resolved of
                   (io2, patientProfile, thresholds, enrichmentSources) \<Rightarrow>
                     (let enrichedEvent =
                            build_enriched_event env normalizedEvent (fst resolved) (snd resolved)
                              patientProfile thresholds enrichmentSources
                      in case produceEnrichedTelemetry env enrichedEvent of
                           Some error \<Rightarrow> (io1 @ io2, Inl error)
                         | None \<Rightarrow> (io1 @ io2, Inr enrichedEvent))))"

section \<open>Kafka consumer of a stage (kafka-consumer.service.ts)\<close>

text \<open>
  The \<open>eachMessage\<close> callback passed to \<open>consumer.run\<close>, in the
  telemetry-enrichment and in the incident service. \<open>JSON_parse\<close> is
  \<open>JSON.parse(message.value.toString())\<close>, which throws on malformed input and
  otherwise gives a JSON value; \<open>messageHandler\<close> is the handler installed by
  \<open>setMessageHandler\<close>, if any. Between the two, the callback writes a debug log
  whose arguments read \<open>event.event_id\<close> (and further properties of the event):
  on the value \<open>null\<close> this throws a \<open>TypeError\<close> before the handler is
  called; every other JSON value has properties to read. The two services differ
  only in the text of that log (\<open>debugLabel\<close>: ``Received normalized telemetry
  event'', ``Received alert event'') and in the further properties they read.
  The result is how the promise of the callback settles.
\<close>

record kafka_message =
  msg_offset :: nat
  msg_value :: "string option"

datatype log_entry = LogWarn string | LogDebug string | LogError string string

text \<open>
  The \<open>TypeError\<close> of a property read on \<open>null\<close>; its message names the property
  and its wording depends on the engine.
\<close>

definition TypeError_null :: js_error where
  "TypeError_null = JsError None ''Cannot read properties of null''"

definition eachMessage ::
  "string \<Rightarrow> (string \<Rightarrow> js_error + json) \<Rightarrow> (json \<Rightarrow> js_error + unit) option
     \<Rightarrow> kafka_message \<Rightarrow> log_entry list \<times> (js_error + unit)" where
  "eachMessage debugLabel JSON_parse messageHandler message =
     (case msg_value message of
        None \<Rightarrow> ([LogWarn ''Received message with no value''], Inr ())
      | Some v \<Rightarrow>
          (case JSON_parse v of
             Inl error \<Rightarrow> ([LogError ''Error processing message'' (err_message error)], Inr ())
           | Inr event \<Rightarrow>
               (if event = JNull
                then ([LogError ''Error processing message'' (err_message TypeError_null)],
                      Inr ())
                else
                  (case messageHandler of
                     None \<Rightarrow> ([LogDebug debugLabel], Inr ())
                   | Some handler \<Rightarrow>
                       (case handler event of
                          Inl error \<Rightarrow>
                            ([LogDebug debugLabel,
                              LogError ''Error processing message'' (err_message error)],
                             Inr ())
                        | Inr u \<Rightarrow> ([LogDebug debugLabel], Inr ()))))))"

text \<open>
  The consumer is created without \<open>autoCommit: false\<close> and the services never call
  \<open>commitOffsets\<close>, so committing is left to the run loop of the client library:
  a message whose \<open>eachMessage\<close> promise resolves is marked processed and the
  committed position of the group moves past it; a message whose promise rejects
  is not marked, and is fetched again.
\<close>

record consumer_state =
  committed :: nat

definition run_message ::
  "(kafka_message \<Rightarrow> log_entry list \<times> (js_error + unit)) \<Rightarrow> consumer_state \<Rightarrow> kafka_message
     \<Rightarrow> consumer_state" where
  "run_message callback st message =
     (case snd (callback message) of
        Inr u \<Rightarrow> st \<lparr> committed := msg_offset message + 1 \<rparr>
      | Inl error \<Rightarrow> st)"

section \<open>Telemetry gateway\<close>

subsection \<open>DTOs and the raw event (telemetry.dto.ts, telemetry.service.ts)\<close>

text \<open>A JavaScript number that may be \<open>NaN\<close> (the result of \<open>parseFloat\<close>).\<close>

datatype js_number = Num real | NaN

record MetricsDto =
  hr :: "real option"
  spo2 :: "real option"
  temp :: "real option"

record MetaDto =
  battery :: "js_number option"
  firmware :: "string option"

record TelemetryDto =
  deviceId :: string
  timestamp :: string
  metrics :: MetricsDto
  meta :: "MetaDto option"

record measurement =
  metric :: string
  mvalue :: real
  unit :: string

record raw_metadata =
  battery_level :: "js_number option"
  firmware_version :: "string option"

record RawTelemetryEvent =
  raw_event_id :: string
  raw_trace_id :: string
  raw_event_type :: string
  raw_version :: string
  raw_timestamp :: string
  raw_device_id :: string
  raw_measurements :: "measurement list"
  raw_metadata :: "raw_metadata option"

text \<open>
  The world of the gateway: the registry flag and client, the answer of the single
  \<open>GetDevice\<close> call of \<open>verifyDevice\<close>, the producer's connection flag, the
  outcome of \<open>producer.send\<close> at each attempt of \<open>produceRawTelemetry\<close>
  (\<open>None\<close> is success), the successive values of \<open>uuidv4()\<close>, the clock reading
  at each call site of \<open>new Date().toISOString()\<close>
  (0: \<open>transformGrpcToDto\<close>, 1: \<open>transformToKafkaEvent\<close>, 2: the gRPC response),
  and \<open>parseFloat\<close>.
\<close>

record gateway_env =
  gw_registryEnabled :: bool
  gw_registryConnected :: bool
  gw_GetDevice :: "string \<Rightarrow> device_msg rpc_outcome"
  gw_kafkaConnected :: bool
  gw_producer_send :: "RawTelemetryEvent \<Rightarrow> int \<Rightarrow> js_error option"
  gw_uuidv4 :: "nat \<Rightarrow> string"
  gw_now :: "nat \<Rightarrow> string"
  gw_parseFloat :: "string option \<Rightarrow> js_number"

subsection \<open>RegistryService.verifyDevice (telemetry-gateway)\<close>

definition verifyDevice :: "gateway_env \<Rightarrow> string \<Rightarrow> bool" where
  "verifyDevice gw device_id =
     (if \<not> gw_registryEnabled gw then True
      else if \<not> gw_registryConnected gw then True
      else (case gw_GetDevice gw device_id of
              RpcFail error \<Rightarrow> True
            | RpcReply st dev \<Rightarrow> (if enums_String st = JsNumber 1 then True else False)))"

subsection \<open>KafkaService: client configuration and produceRawTelemetry\<close>

record RetryOptions =
  retries :: int
  initialRetryTime :: int
  multiplier :: int
  maxRetryTime :: int

record ProducerConfig =
  maxInFlightRequests :: int
  idempotent :: bool
  transactionTimeout :: int

definition kafkaConfig_retry :: RetryOptions where
  "kafkaConfig_retry =
     \<lparr> retries = 8, initialRetryTime = 100, multiplier = 2, maxRetryTime = 30000 \<rparr>"

definition producerConfig :: ProducerConfig where
  "producerConfig =
     \<lparr> maxInFlightRequests = 1, idempotent = True, transactionTimeout = 30000 \<rparr>"

definition maxRetries :: int where
  "maxRetries = 3"

text \<open>\<open>Math.min(1000 * Math.pow(2, attempt - 1), 5000)\<close>, for \<open>attempt \<ge> 1\<close>.\<close>

definition retry_delay :: "int \<Rightarrow> int" where
  "retry_delay attempt = min (1000 * 2 ^ nat (attempt - 1)) 5000"

function produceRawTelemetry_loop ::
  "gateway_env \<Rightarrow> RawTelemetryEvent \<Rightarrow> int \<Rightarrow> js_error option
     \<Rightarrow> io_event list \<times> (js_error + unit)" where
  "produceRawTelemetry_loop gw event attempt lastError =
     (if attempt \<le> maxRetries then
        (case gw_producer_send gw event attempt of
           None \<Rightarrow> ([KafkaSend attempt], Inr ())
         | Some error \<Rightarrow>
             (case produceRawTelemetry_loop gw event (attempt + 1) (Some error) of
                (evs, r) \<Rightarrow>
                  (KafkaSend attempt
                     # (if attempt < maxRetries then [Sleep (retry_delay attempt)] else [])
                     @ evs, r)))
      else ([], Inl (case lastError of
                       Some error \<Rightarrow> error
                     | None \<Rightarrow> JsError None ''Failed to produce event to Kafka'')))"
  by pat_completeness auto
termination
  by (relation "measure (\<lambda>(gw, event, attempt, lastError). nat (maxRetries + 1 - attempt))")
     auto

declare produceRawTelemetry_loop.simps [simp del]

definition produceRawTelemetry ::
  "gateway_env \<Rightarrow> RawTelemetryEvent \<Rightarrow> io_event list \<times> (js_error + unit)" where
  "produceRawTelemetry gw event =
     (if \<not> gw_kafkaConnected gw then ([], Inl (JsError None ''Kafka producer is not connected''))
      else produceRawTelemetry_loop gw event 1 None)"

subsection \<open>TelemetryService\<close>

definition transformToKafkaEvent :: "gateway_env \<Rightarrow> TelemetryDto \<Rightarrow> js_error + RawTelemetryEvent" where
  "transformToKafkaEvent gw dto =
     (let eventId = ''evt_'' @ gw_uuidv4 gw 0;
          traceId = ''trace_'' @ gw_uuidv4 gw 1;
          ts = (if timestamp dto \<noteq> [] then timestamp dto else gw_now gw 1);
          measurements =
            (case hr (metrics dto) of
               None \<Rightarrow> []
             | Some v \<Rightarrow> [\<lparr> metric = ''heart_rate'', mvalue = v, unit = ''bpm'' \<rparr>])
            @ (case spo2 (metrics dto) of
                 None \<Rightarrow> []
               | Some v \<Rightarrow> [\<lparr> metric = ''oxygen_saturation'', mvalue = v, unit = ''percent'' \<rparr>])
            @ (case temp (metrics dto) of
                 None \<Rightarrow> []
               | Some v \<Rightarrow> [\<lparr> metric = ''temperature'', mvalue = v, unit = ''fahrenheit'' \<rparr>])
      in if length measurements = 0
         then Inl (JsError None ''At least one metric must be provided'')
         else
           (let metadata =
                  \<lparr> battery_level = Option.bind (meta dto) battery,
                    firmware_version =
                      (if truthy (Option.bind (meta dto) firmware)
                       then Option.bind (meta dto) firmware else None) \<rparr>
            in Inr \<lparr> raw_event_id = eventId,
                     raw_trace_id = traceId,
                     raw_event_type = ''telemetry.raw'',
                     raw_version = ''1.0.0'',
                     raw_timestamp = ts,
                     raw_device_id = deviceId dto,
                     raw_measurements = measurements,
                     raw_metadata =
                       (if battery_level metadata = None \<and> firmware_version metadata = None
                        then None else Some metadata) \<rparr>))"

record process_result =
  eventId :: string
  success :: bool

definition processTelemetry ::
  "gateway_env \<Rightarrow> TelemetryDto \<Rightarrow> io_event list \<times> (js_error + process_result)" where
  "processTelemetry gw dto =
     (if \<not> verifyDevice gw (deviceId dto)
      then ([], Inl (JsError None (''Device '' @ deviceId dto @ '' not found in registry'')))
      else (case transformToKafkaEvent gw dto of
              Inl error \<Rightarrow> ([], Inl error)
            | Inr event \<Rightarrow>
                (case produceRawTelemetry gw event of
                   (io, Inl error) \<Rightarrow> (io, Inl error)
                 | (io, Inr u) \<Rightarrow>
                     (io, Inr \<lparr> eventId = raw_event_id event, success = True \<rparr>))))"

subsection \<open>TelemetryController.receiveTelemetry (HTTP)\<close>

text \<open>
  The handler returns its body with status 200 (\<open>@HttpCode(HttpStatus.OK)\<close>) or
  throws \<open>BadRequestException\<close>, which the framework answers with status 400 and
  the given body.
\<close>

record http_response =
  http_status :: nat
  body_success :: bool
  body_eventId :: "string option"
  body_message :: string

definition receiveTelemetry :: "gateway_env \<Rightarrow> TelemetryDto \<Rightarrow> http_response" where
  "receiveTelemetry gw dto =
     (case snd (processTelemetry gw dto) of
        Inr result \<Rightarrow>
          \<lparr> http_status = 200, body_success = True, body_eventId = Some (eventId result),
            body_message = ''Telemetry received and processed'' \<rparr>
      | Inl error \<Rightarrow>
          \<lparr> http_status = 400, body_success = False, body_eventId = None,
            body_message = err_message error \<rparr>)"

subsection \<open>TelemetryGrpcController.sendMeasurements (RPC)\<close>

record grpc_measurement =
  gm_metric :: "string option"
  gm_value :: real

record grpc_device_metadata =
  gdm_battery :: "string option"
  gdm_battery_level :: "string option"
  gdm_firmware :: "string option"
  gdm_firmware_version :: "string option"

record SendMeasurementsRequest =
  req_device_id :: string
  req_timestamp :: "string option"
  req_measurements :: "grpc_measurement list option"
  req_device_metadata :: "grpc_device_metadata option"

record SendMeasurementsResponse =
  res_version :: string
  res_status :: int
  res_message :: string
  res_event_id :: string
  res_timestamp :: string

text \<open>\<open>String.prototype.toLowerCase\<close> on the ASCII letters, \<open>String.prototype.includes\<close>.\<close>

definition toLowerCase :: "string \<Rightarrow> string" where
  "toLowerCase s =
     map (\<lambda>c. case map_of (zip ''ABCDEFGHIJKLMNOPQRSTUVWXYZ'' ''abcdefghijklmnopqrstuvwxyz'') c of
                 Some l \<Rightarrow> l
               | None \<Rightarrow> c) s"

fun includes_str :: "string \<Rightarrow> string \<Rightarrow> bool" where
  "includes_str [] sub = (sub = [])"
| "includes_str (c # cs) sub = (take (length sub) (c # cs) = sub \<or> includes_str cs sub)"

text \<open>The loop over \<open>data.measurements\<close>: a later measurement overwrites an earlier one.\<close>

fun collect_metrics :: "grpc_measurement list \<Rightarrow> MetricsDto \<Rightarrow> MetricsDto" where
  "collect_metrics [] m = m"
| "collect_metrics (x # xs) m =
     (let metricName = map_option toLowerCase (gm_metric x)
      in collect_metrics xs
           (if metricName = Some ''heart_rate'' \<or> metricName = Some ''hr''
              then m \<lparr> hr := Some (gm_value x) \<rparr>
            else if metricName = Some ''oxygen_saturation'' \<or> metricName = Some ''spo2''
              then m \<lparr> spo2 := Some (gm_value x) \<rparr>
            else if metricName = Some ''temperature'' \<or> metricName = Some ''temp''
              then m \<lparr> temp := Some (gm_value x) \<rparr>
            else m))"

definition transformGrpcToDto :: "gateway_env \<Rightarrow> SendMeasurementsRequest \<Rightarrow> TelemetryDto" where
  "transformGrpcToDto gw data =
     (let metrics0 = \<lparr> hr = None, spo2 = None, temp = None \<rparr>;
          metricsDto =
            (case req_measurements data of
               None \<Rightarrow> metrics0
             | Some ms \<Rightarrow> collect_metrics ms metrics0);
          metaDto =
            (case req_device_metadata data of
               None \<Rightarrow> \<lparr> battery = None, firmware = None \<rparr>
             | Some dmeta \<Rightarrow>
                 \<lparr> battery =
                     (if gdm_battery dmeta = None \<and> gdm_battery_level dmeta = None
                      then None
                      else Some (gw_parseFloat gw
                                   (if truthy (gdm_battery dmeta) then gdm_battery dmeta
                                    else gdm_battery_level dmeta))),
                   firmware =
                     (if truthy (gdm_firmware dmeta) then gdm_firmware dmeta
                      else if truthy (gdm_firmware_version dmeta) then gdm_firmware_version dmeta
                      else None) \<rparr>)
      in \<lparr> deviceId = req_device_id data,
           timestamp = or_else (req_timestamp data) (gw_now gw 0),
           metrics = metricsDto,
           meta = (if battery metaDto = None \<and> firmware metaDto = None
                   then None else Some metaDto) \<rparr>)"

definition error_status :: "js_error \<Rightarrow> int" where
  "error_status error =
     (if includes_str (err_message error) ''not found'' then 3
      else if includes_str (err_message error) ''validation'' then 2
      else 4)"

definition sendMeasurements :: "gateway_env \<Rightarrow> SendMeasurementsRequest \<Rightarrow> SendMeasurementsResponse" where
  "sendMeasurements gw data =
     (let dto = transformGrpcToDto gw data
      in case snd (processTelemetry gw dto) of
           Inr result \<Rightarrow>
             \<lparr> res_version = ''1.0.0'', res_status = 1,
               res_message = ''Measurements received and processed'',
               res_event_id = eventId result, res_timestamp = gw_now gw 2 \<rparr>
         | Inl error \<Rightarrow>
             \<lparr> res_version = ''1.0.0'', res_status = error_status error,
               res_message = err_message error,
               res_event_id = [], res_timestamp = gw_now gw 2 \<rparr>)"

section \<open>Observations on a run\<close>

definition send_attempts :: "io_event list \<Rightarrow> int list" where
  "send_attempts io = concat (map (\<lambda>e. case e of KafkaSend a \<Rightarrow> [a] | _ \<Rightarrow> []) io)"

definition sleeps :: "io_event list \<Rightarrow> int list" where
  "sleeps io = concat (map (\<lambda>e. case e of Sleep d \<Rightarrow> [d] | _ \<Rightarrow> []) io)"

section \<open>Concrete scenarios\<close>

text \<open>
  A normalized event for device D1, derived from the raw event \<open>evt_u0\<close>, that
  carries neither a patient id nor a trace id.
\<close>

definition ev_D1 :: NormalizedTelemetryEvent where
  "ev_D1 =
     \<lparr> ne_event_id = ''evt_n1'', ne_trace_id = None,
       ne_event_type = ''telemetry.normalized'', ne_version = Some ''1.0.0'',
       ne_timestamp = ''2024-01-15T10:30:00.000Z'', ne_source_event_id = Some ''evt_u0'',
       ne_device_id = ''D1'', ne_patient_id = None,
       ne_vitals = JObj [(''heart_rate'', JObj [(''value'', JNum 72), (''unit'', JStr ''bpm'')])],
       ne_validation_status = Some ''valid'', ne_normalization_metadata = None \<rparr>"

text \<open>
  A registry that is enabled and connected and knows nothing: every lookup ends
  in the gRPC error NOT_FOUND (code 5). The producer accepts every event.
\<close>

definition env_empty_registry :: enricher_env where
  "env_empty_registry =
     \<lparr> registryEnabled = True, isConnected = True,
       registryMaxRetries = 3, registryRetryDelayMs = 1000,
       GetDevice = (\<lambda>d a. RpcFail (JsError (Some 5) ''5 NOT_FOUND'')),
       GetPatient = (\<lambda>p a. RpcFail (JsError (Some 5) ''5 NOT_FOUND'')),
       GetThresholdProfile = (\<lambda>p d a. RpcFail (JsError (Some 5) ''5 NOT_FOUND'')),
       uuidv4 = (\<lambda>n. if n = 0 then ''u0'' else ''u1''),
       now = (\<lambda>n. ''2024-01-15T10:30:01.000Z''),
       produceEnrichedTelemetry = (\<lambda>e. None) \<rparr>"

text \<open>
  A registry in which every device is registered and linked to patient P1
  (age 54, female, with a heart-rate range): every lookup is answered with
  \<open>STATUS_SUCCESS\<close> and the entity.
\<close>

definition env_linked :: enricher_env where
  "env_linked =
     env_empty_registry
       \<lparr> GetDevice := (\<lambda>d a. RpcReply STATUS_SUCCESS (Some
            \<lparr> dm_device_id = Some d, dm_device_type = Some ''wearable'',
              dm_patient_id = Some ''P1'', dm_status = None, dm_metadata = None,
              dm_registered_at = None, dm_updated_at = None \<rparr>)),
         GetPatient := (\<lambda>p a. RpcReply STATUS_SUCCESS (Some
            \<lparr> pm_patient_id = Some p, pm_age = Some 54,
              pm_gender = Some (JsString ''GENDER_FEMALE''),
              pm_medical_conditions = None, pm_medications = None, pm_allergies = None,
              pm_metadata = None, pm_registered_at = None, pm_updated_at = None \<rparr>)),
         GetThresholdProfile := (\<lambda>p d a. RpcReply STATUS_SUCCESS (Some
            \<lparr> tp_profile_id = Some ''T1'', tp_patient_id = Some p, tp_device_id = d,
              tp_heart_rate = Some (JObj [(''min'', JNum 60), (''max'', JNum 100)]),
              tp_blood_pressure = None, tp_temperature = None,
              tp_oxygen_saturation = None, tp_respiratory_rate = None,
              tp_created_at = None, tp_updated_at = None \<rparr>)) \<rparr>"

text \<open>A registry outage: every attempt of every RPC fails with gRPC status 14 (UNAVAILABLE).\<close>

definition env_outage :: enricher_env where
  "env_outage =
     env_empty_registry
       \<lparr> GetDevice := (\<lambda>d a. RpcFail (JsError (Some 14) ''14 UNAVAILABLE'')),
         GetPatient := (\<lambda>p a. RpcFail (JsError (Some 14) ''14 UNAVAILABLE'')),
         GetThresholdProfile := (\<lambda>p d a. RpcFail (JsError (Some 14) ''14 UNAVAILABLE'')) \<rparr>"

text \<open>
  The request of the happy path, and a gateway with device verification enabled
  whose registry answers that the device is registered (\<open>STATUS_SUCCESS\<close>) and
  whose broker accepts every send.
\<close>

definition dto_D1 :: TelemetryDto where
  "dto_D1 =
     \<lparr> deviceId = ''D1'', timestamp = ''2024-01-15T10:30:00.000Z'',
       metrics = \<lparr> hr = Some 72, spo2 = Some 98, temp = None \<rparr>,
       meta = None \<rparr>"

definition gw_registered :: gateway_env where
  "gw_registered =
     \<lparr> gw_registryEnabled = True, gw_registryConnected = True,
       gw_GetDevice = (\<lambda>d. RpcReply STATUS_SUCCESS (Some
            \<lparr> dm_device_id = Some d, dm_device_type = Some ''wearable'',
              dm_patient_id = Some ''P1'', dm_status = None, dm_metadata = None,
              dm_registered_at = None, dm_updated_at = None \<rparr>)),
       gw_kafkaConnected = True,
       gw_producer_send = (\<lambda>e a. None),
       gw_uuidv4 = (\<lambda>n. if n = 0 then ''u0'' else ''u1''),
       gw_now = (\<lambda>k. ''2024-01-15T10:30:01.000Z''),
       gw_parseFloat = (\<lambda>s. NaN) \<rparr>"

text \<open>The same request as it arrives on the RPC surface.\<close>

definition req_D1 :: SendMeasurementsRequest where
  "req_D1 =
     \<lparr> req_device_id = ''D1'', req_timestamp = Some ''2024-01-15T10:30:00.000Z'',
       req_measurements = Some [\<lparr> gm_metric = Some ''heart_rate'', gm_value = 72 \<rparr>,
                                \<lparr> gm_metric = Some ''SpO2'', gm_value = 98 \<rparr>],
       req_device_metadata = None \<rparr>"

text \<open>
  The same gateway when the registry call ends in a gRPC error, and a gateway
  with device verification switched off whose broker rejects every send.
\<close>

definition gw_registry_unreachable :: gateway_env where
  "gw_registry_unreachable =
     gw_registered \<lparr> gw_GetDevice := (\<lambda>d. RpcFail (JsError (Some 14) ''14 UNAVAILABLE'')) \<rparr>"

definition gw_broker_down :: gateway_env where
  "gw_broker_down =
     gw_registered
       \<lparr> gw_registryEnabled := False,
         gw_producer_send := (\<lambda>e a. Some (JsError None ''Connection timeout'')) \<rparr>"

text \<open>
  The normalized event as it arrives with an own patient id, with the gateway's
  trace id, and with an empty trace id.
\<close>

definition ev_D1_P9 :: NormalizedTelemetryEvent where
  "ev_D1_P9 = ev_D1 \<lparr> ne_patient_id := Some ''P9'' \<rparr>"

definition ev_D1_traced :: NormalizedTelemetryEvent where
  "ev_D1_traced = ev_D1 \<lparr> ne_trace_id := Some ''trace_u1'' \<rparr>"

definition ev_D1_blank :: NormalizedTelemetryEvent where
  "ev_D1_blank = ev_D1 \<lparr> ne_trace_id := Some [] \<rparr>"

text \<open>The events these scenarios put on the enriched and on the raw topic.\<close>

definition enriched_orphan :: EnrichedTelemetryEvent where
  "enriched_orphan =
     \<lparr> ee_event_id = ''u1'', ee_trace_id = ''trace_u0'',
       ee_event_type = ''telemetry.enriched'', ee_version = ''1.0.0'',
       ee_timestamp = ''2024-01-15T10:30:01.000Z'',
       ee_source_event_id = ''evt_n1'', ee_device_id = ''D1'',
       ee_patient_id = None, ee_orphan = Some True,
       ee_patientProfile = None, ee_thresholds = None,
       ee_vitals = JObj [(''heart_rate'', JObj [(''value'', JNum 72), (''unit'', JStr ''bpm'')])],
       ee_enrichment_metadata =
         \<lparr> enriched_at = ''2024-01-15T10:30:01.000Z'', enrichment_sources = [''none''] \<rparr> \<rparr>"

definition enriched_kept :: EnrichedTelemetryEvent where
  "enriched_kept = enriched_orphan \<lparr> ee_patient_id := Some ''P9'', ee_orphan := None \<rparr>"

definition enriched_traced :: EnrichedTelemetryEvent where
  "enriched_traced = enriched_orphan \<lparr> ee_event_id := ''u0'', ee_trace_id := ''trace_u1'' \<rparr>"

definition raw_D1 :: RawTelemetryEvent where
  "raw_D1 =
     \<lparr> raw_event_id = ''evt_u0'', raw_trace_id = ''trace_u1'',
       raw_event_type = ''telemetry.raw'', raw_version = ''1.0.0'',
       raw_timestamp = ''2024-01-15T10:30:00.000Z'', raw_device_id = ''D1'',
       raw_measurements =
         [\<lparr> metric = ''heart_rate'', mvalue = 72, unit = ''bpm'' \<rparr>,
          \<lparr> metric = ''oxygen_saturation'', mvalue = 98, unit = ''percent'' \<rparr>],
       raw_metadata = None \<rparr>"

text \<open>
  The retry policy in the words of the specification, to compare the loop of
  \<open>produceRawTelemetry\<close> with: exponential backoff, initial 100 ms, multiplier 2,
  cap 30 s, up to 8 attempts.
\<close>

definition spec_retry_delay :: "int \<Rightarrow> int" where
  "spec_retry_delay attempt = min (100 * 2 ^ nat (attempt - 1)) 30000"

definition spec_max_attempts :: int where
  "spec_max_attempts = 8"

text \<open>
  A consumed message at offset 7 whose value parses to an object, the debug text
  of the enrichment consumer, and a handler that raises (as \<open>enrichTelemetry\<close>
  does when a publish fails).
\<close>

definition message_7 :: kafka_message where
  "message_7 = \<lparr> msg_offset = 7, msg_value = Some ''{}'' \<rparr>"

definition received_normalized :: string where
  "received_normalized = ''Received normalized telemetry event''"

definition parse_ok :: "string \<Rightarrow> js_error + json" where
  "parse_ok s = Inr (JObj [])"

definition failing_handler :: "json \<Rightarrow> js_error + unit" where
  "failing_handler event = Inl (JsError None ''publish failed'')"

section \<open>Facts about the enricher\<close>

text \<open>
  Whatever status the registry answers with, the operation of a lookup rejects:
  the status it reads is the name of the enum value, which is neither \<open>=== 1\<close>
  nor \<open>=== 2\<close>.
\<close>

lemma getDevice_operation_reply:
  "GetDevice env d a = RpcReply st dev \<Longrightarrow>
     getDevice_operation env d a
       = Inl (JsError None (''Registry returned status: '' @ status_name st))"
  by (simp add: getDevice_operation_def enums_String_def)

text \<open>What a run that published an event went through.\<close>

lemma enrichTelemetry_Inr:
  assumes "enrichTelemetry env ev = (io, Inr out)"
  obtains io1 device io2 pp th srcs where
    "getDevice env (ne_device_id ev) = (io1, Inr device)"
    "enrich_context env (ne_device_id ev) (resolve_patient device (ne_patient_id ev))
       = (io2, pp, th, srcs)"
    "out = build_enriched_event env ev (fst (resolve_patient device (ne_patient_id ev)))
             (snd (resolve_patient device (ne_patient_id ev))) pp th srcs"
    "io = io1 @ io2"
    "produceEnrichedTelemetry env out = None"
  using assms unfolding enrichTelemetry_def Let_def
  by (auto split: prod.splits sum.splits option.splits)

lemma enrich_context_orphan:
  "enrich_context env d (p, True) = ([], None, None, [])"
  by (simp add: enrich_context_def split: option.splits)

lemma build_trace_id:
  "ee_trace_id (build_enriched_event env ev p orph pp th srcs)
     = or_else (ne_trace_id ev) (''trace_'' @ uuidv4 env 0)"
  by (simp add: build_enriched_event_def Let_def)

lemma build_orphan:
  "ee_orphan (build_enriched_event env ev p orph pp th srcs) = (if orph then Some True else None)"
  by (simp add: build_enriched_event_def Let_def)

lemma build_patient_id:
  "ee_patient_id (build_enriched_event env ev p orph pp th srcs) = (if truthy p then p else None)"
  by (simp add: build_enriched_event_def Let_def)

lemma build_context:
  "ee_patientProfile (build_enriched_event env ev p orph pp th srcs) = pp"
  "ee_thresholds (build_enriched_event env ev p orph pp th srcs) = th"
  by (simp_all add: build_enriched_event_def Let_def)



subsection \<open>The scenarios, run\<close>

lemmas enricher_defs = enrichTelemetry_def getDevice_def getPatient_def getThresholdProfile_def
  callWithRetry_def callWithRetry_loop.simps getDevice_operation_def getPatient_operation_def
  getThresholdProfile_operation_def resolve_patient_def enrich_context_def fetch_context_def
  build_enriched_event_def grpc_status_NOT_FOUND_def enums_String_def Let_def

lemmas scenario_defs = ev_D1_def ev_D1_P9_def ev_D1_traced_def ev_D1_blank_def
  env_empty_registry_def env_linked_def env_outage_def enriched_orphan_def enriched_kept_def
  enriched_traced_def

lemma run_orphan:
  "enrichTelemetry env_empty_registry ev_D1 = ([RpcCall ''GetDevice'' 1], Inr enriched_orphan)"
  by (simp add: enricher_defs scenario_defs)

lemma run_kept:
  "enrichTelemetry env_empty_registry ev_D1_P9 =
     ([RpcCall ''GetDevice'' 1, RpcCall ''GetPatient'' 1, RpcCall ''GetThresholdProfile'' 1],
      Inr enriched_kept)"
  by (simp add: enricher_defs scenario_defs)



section \<open>Facts about the gateway\<close>

text \<open>
  \<open>verifyDevice\<close> lets a request through when verification is off, the client is
  not connected or the call ends in an error, and rejects it whenever the
  registry answers, whatever the answer.
\<close>

lemma verifyDevice_fails_open:
  "\<not> gw_registryEnabled gw \<or> \<not> gw_registryConnected gw \<or>
   (\<exists>error. gw_GetDevice gw d = RpcFail error) \<Longrightarrow> verifyDevice gw d"
  by (auto simp: verifyDevice_def)

lemma verifyDevice_rejects_every_answer:
  "gw_registryEnabled gw \<Longrightarrow> gw_registryConnected gw \<Longrightarrow>
   gw_GetDevice gw d = RpcReply st dev \<Longrightarrow> \<not> verifyDevice gw d"
  by (simp add: verifyDevice_def enums_String_def)




text \<open>The loop of \<open>produceRawTelemetry\<close> has at most three rounds.\<close>

lemma produceRawTelemetry_loop_unroll:
  "produceRawTelemetry_loop gw ev 1 None =
     (case gw_producer_send gw ev 1 of
        None \<Rightarrow> ([KafkaSend 1], Inr ())
      | Some e1 \<Rightarrow>
          (case gw_producer_send gw ev 2 of
             None \<Rightarrow> ([KafkaSend 1, Sleep 1000, KafkaSend 2], Inr ())
           | Some e2 \<Rightarrow>
               (case gw_producer_send gw ev 3 of
                  None \<Rightarrow> ([KafkaSend 1, Sleep 1000, KafkaSend 2, Sleep 2000, KafkaSend 3], Inr ())
                | Some e3 \<Rightarrow>
                    ([KafkaSend 1, Sleep 1000, KafkaSend 2, Sleep 2000, KafkaSend 3], Inl e3))))"
  by (simp add: produceRawTelemetry_loop.simps maxRetries_def retry_delay_def split: option.splits)

lemma includes_str_prefix: "includes_str (sub @ ys) sub"
proof (cases "sub @ ys")
  case Nil
  then show ?thesis by simp
next
  case (Cons a list)
  have "take (length sub) (sub @ ys) = sub" by simp
  then show ?thesis unfolding Cons by simp
qed

lemma includes_str_append: "includes_str (xs @ sub @ ys) sub"
proof (induction xs)
  case Nil
  show ?case by (simp add: includes_str_prefix)
next
  case (Cons x xs)
  then show ?case by simp
qed

lemma processTelemetry_rejected:
  "\<not> verifyDevice gw (deviceId dto) \<Longrightarrow>
     processTelemetry gw dto
       = ([], Inl (JsError None (''Device '' @ deviceId dto @ '' not found in registry'')))"
  by (simp add: processTelemetry_def)

lemma processTelemetry_accepted:
  "verifyDevice gw (deviceId dto) \<Longrightarrow> transformToKafkaEvent gw dto = Inr event \<Longrightarrow>
   produceRawTelemetry gw event = (io, r) \<Longrightarrow>
     processTelemetry gw dto
       = (io, case r of Inl error \<Rightarrow> Inl error
                | Inr u \<Rightarrow> Inr \<lparr> eventId = raw_event_id event, success = True \<rparr>)"
  by (simp add: processTelemetry_def split: sum.splits)

lemma not_found_status:
  "error_status (JsError None (''Device '' @ d @ '' not found in registry'')) = 3"
proof -
  have "includes_str ((''Device '' @ d @ '' '') @ ''not found'' @ '' in registry'') ''not found''"
    by (rule includes_str_append)
  then show ?thesis by (simp add: error_status_def)
qed

lemma produce_broker_down:
  "produceRawTelemetry gw_broker_down raw_D1 =
     ([KafkaSend 1, Sleep 1000, KafkaSend 2, Sleep 2000, KafkaSend 3],
      Inl (JsError None ''Connection timeout''))"
  by (simp add: produceRawTelemetry_def produceRawTelemetry_loop_unroll
        gw_broker_down_def gw_registered_def)

lemma transform_D1_broker_down: "transformToKafkaEvent gw_broker_down dto_D1 = Inr raw_D1"
  by (simp add: transformToKafkaEvent_def gw_broker_down_def gw_registered_def dto_D1_def
        raw_D1_def Let_def)

lemma verify_broker_down: "verifyDevice gw_broker_down (deviceId dto_D1)"
  by (simp add: verifyDevice_def gw_broker_down_def gw_registered_def)

section \<open>The claims\<close>

text \<open>
  C1. Amended claim: when the handler of a consumed message raises, the stage
  logs the error and its \<open>eachMessage\<close> callback completes normally (it never
  rethrows), so the message counts as processed: the committed position moves
  past it and it is not delivered again. The offset is therefore committed
  whether or not the publishes of the derived events succeeded. (The handler is
  reached for every message whose value parses to something other than \<open>null\<close>.)
\<close>

theorem C1_handler_error_is_swallowed:
  "(msg_value message = Some v \<and> JSON_parse v = Inr event \<and> event \<noteq> JNull \<and>
    messageHandler = Some handler \<and> handler event = Inl error \<longrightarrow>
      fst (eachMessage debugLabel JSON_parse messageHandler message)
        = [LogDebug debugLabel, LogError ''Error processing message'' (err_message error)]) \<and>
   snd (eachMessage debugLabel JSON_parse messageHandler message) = Inr () \<and>
   committed (run_message (eachMessage debugLabel JSON_parse messageHandler) st message)
     = msg_offset message + 1"
proof -
  have r: "snd (eachMessage debugLabel JSON_parse messageHandler message) = Inr ()"
    by (simp add: eachMessage_def split: option.splits sum.splits)
  then have "committed (run_message (eachMessage debugLabel JSON_parse messageHandler) st message)
               = msg_offset message + 1"
    by (simp add: run_message_def)
  with r show ?thesis
    by (simp add: eachMessage_def)
qed

theorem C1_handler_error_is_swallowed_witness:
  "msg_value message_7 = Some ''{}'' \<and> parse_ok ''{}'' = Inr (JObj []) \<and>
   failing_handler (JObj []) = Inl (JsError None ''publish failed'') \<and>
   eachMessage received_normalized parse_ok (Some failing_handler) message_7
     = ([LogDebug received_normalized, LogError ''Error processing message'' ''publish failed''],
        Inr ()) \<and>
   committed (run_message (eachMessage received_normalized parse_ok (Some failing_handler))
                \<lparr> committed = 7 \<rparr> message_7) = 8"
proof -
  have h: "msg_value message_7 = Some ''{}''" "parse_ok ''{}'' = Inr (JObj [])"
    "failing_handler (JObj []) = Inl (JsError None ''publish failed'')"
    "msg_offset message_7 = 7" "JObj [] \<noteq> JNull"
    by (simp_all add: message_7_def parse_ok_def failing_handler_def)
  from C1_handler_error_is_swallowed
         [where message = message_7 and v = "''{}''" and JSON_parse = parse_ok
            and event = "JObj []" and messageHandler = "Some failing_handler"
            and handler = failing_handler and error = "JsError None ''publish failed''"
            and debugLabel = received_normalized and st = "\<lparr> committed = 7 \<rparr>"] h
  have "fst (eachMessage received_normalized parse_ok (Some failing_handler) message_7)
          = [LogDebug received_normalized,
             LogError ''Error processing message'' ''publish failed''] \<and>
        snd (eachMessage received_normalized parse_ok (Some failing_handler) message_7) = Inr () \<and>
        committed (run_message (eachMessage received_normalized parse_ok (Some failing_handler))
                     \<lparr> committed = 7 \<rparr> message_7) = 8"
    by simp
  with h show ?thesis
    by (simp add: prod_eq_iff)
qed

text \<open>
  The claim as the spec words it (a raising handler leaves the offset
  uncommitted) fails for the message at offset 7 and a handler that raises:
  the committed position goes from 7 to 8.
\<close>

theorem C1_commit_after_handler_error_counterexample:
  "failing_handler (JObj []) = Inl (JsError None ''publish failed'') \<and>
   committed \<lparr> committed = 7 \<rparr> = 7 \<and>
   committed (run_message (eachMessage received_normalized parse_ok (Some failing_handler))
                \<lparr> committed = 7 \<rparr> message_7) = 8"
  by (simp add: eachMessage_def run_message_def message_7_def parse_ok_def failing_handler_def)

text \<open>
  C2. Claim: if the Registry is unreachable (all lookups, including GetDevice, fail
  after retries), the Enricher still emits an enriched event marked orphan with
  \<open>enrichment_sources = ["none"]\<close>.

  The code does not: with the registry enabled and connected and every attempt
  failing with UNAVAILABLE, \<open>getDevice\<close> rejects after its three attempts (two
  waits of 1000 and 2000 ms), the rejection leaves \<open>enrichTelemetry\<close> through the
  outer \<open>catch\<close>, and no event reaches the producer. The lookups of steps 2 and 3
  sit in a \<open>try\<close> of their own (``continue with enrichment even if patient/threshold
  lookup fails''); the device lookup does not.
\<close>

theorem C2_registry_outage_emits_nothing:
  "enrichTelemetry env_outage ev_D1 =
     ([RpcCall ''GetDevice'' 1, Sleep 1000, RpcCall ''GetDevice'' 2, Sleep 2000,
       RpcCall ''GetDevice'' 3],
      Inl (JsError (Some 14) ''14 UNAVAILABLE''))"
  by (simp add: enricher_defs scenario_defs)

text \<open>
  C3. Claim: if \<open>GetDevice\<close> returns a device with a patient id, that patient id is
  adopted; if the device is not found and the input carries a patient id, that
  one is kept; otherwise the output is marked orphan.

  The code does not adopt the patient of a registered device. The registry
  answers the lookup of D1 with \<open>STATUS_SUCCESS\<close> and the device linked to P1;
  the client hands the status over as the string \<open>STATUS_SUCCESS\<close>, which the
  code compares with the numbers 1 and 2; so every attempt ends in
  ``Registry returned status: STATUS_SUCCESS'', \<open>getDevice\<close> rejects after its
  three attempts, and \<open>enrichTelemetry\<close> throws without publishing.
\<close>

theorem C3_registered_device_is_not_adopted:
  "enrichTelemetry env_linked ev_D1 =
     ([RpcCall ''GetDevice'' 1, Sleep 1000, RpcCall ''GetDevice'' 2, Sleep 2000,
       RpcCall ''GetDevice'' 3],
      Inl (JsError None ''Registry returned status: STATUS_SUCCESS''))"
  by (simp add: enricher_defs scenario_defs)

text \<open>
  C4. Every enriched event emitted with \<open>orphan = true\<close> has neither a
  \<open>patientProfile\<close> nor a \<open>thresholds\<close> field.
\<close>

theorem C4_orphan_has_no_context:
  assumes "enrichTelemetry env ev = (io, Inr out)" and "ee_orphan out = Some True"
  shows "ee_patientProfile out = None \<and> ee_thresholds out = None"
proof -
  from assms(1) obtain device io2 pp th srcs where
    ctx: "enrich_context env (ne_device_id ev) (resolve_patient device (ne_patient_id ev))
            = (io2, pp, th, srcs)"
    and out: "out = build_enriched_event env ev (fst (resolve_patient device (ne_patient_id ev)))
             (snd (resolve_patient device (ne_patient_id ev))) pp th srcs"
    by (rule enrichTelemetry_Inr)
  obtain p orph where res: "resolve_patient device (ne_patient_id ev) = (p, orph)"
    by (cases "resolve_patient device (ne_patient_id ev)")
  from assms(2) out res have "orph"
    by (simp add: build_orphan split: if_splits)
  with ctx res have "pp = None \<and> th = None"
    by (simp add: enrich_context_orphan)
  with out show ?thesis
    by (simp add: build_context)
qed

theorem C4_orphan_has_no_context_witness:
  "enrichTelemetry env_empty_registry ev_D1 = ([RpcCall ''GetDevice'' 1], Inr enriched_orphan) \<and>
   ee_orphan enriched_orphan = Some True \<and>
   ee_patientProfile enriched_orphan = None \<and> ee_thresholds enriched_orphan = None"
proof -
  have orph: "ee_orphan enriched_orphan = Some True"
    by (simp add: enriched_orphan_def)
  from C4_orphan_has_no_context [OF run_orphan orph] run_orphan orph
  show ?thesis by simp
qed

text \<open>
  C5. The \<open>source_event_id\<close> of every enriched event equals the \<open>event_id\<close> of the
  normalized event it was made from. (The enricher is the consuming stage whose
  code is at hand.)
\<close>

theorem C5_source_event_id:
  "enrichTelemetry env ev = (io, Inr out) \<Longrightarrow> ee_source_event_id out = ne_event_id ev"
  by (erule enrichTelemetry_Inr) (simp add: build_enriched_event_def Let_def)

theorem C5_source_event_id_witness:
  "enrichTelemetry env_empty_registry ev_D1_P9 =
     ([RpcCall ''GetDevice'' 1, RpcCall ''GetPatient'' 1, RpcCall ''GetThresholdProfile'' 1],
      Inr enriched_kept) \<and>
   ee_source_event_id enriched_kept = ''evt_n1'' \<and> ne_event_id ev_D1_P9 = ''evt_n1''"
  using C5_source_event_id [OF run_kept] run_kept
  by (simp add: ev_D1_P9_def ev_D1_def)




text \<open>
  C7. Claim: with device verification enabled the Gateway accepts the event when
  the Registry is unreachable, and rejects a request as ``device not found'' only
  when the Registry answers that the device is not registered.

  The code rejects registered devices as well. The registry answers the lookup
  of D1 with \<open>STATUS_SUCCESS\<close>; the client hands the status over as the string
  \<open>STATUS_SUCCESS\<close>, which \<open>verifyDevice\<close> compares with the number 1; the request
  is rejected with ``Device D1 not found in registry'' (HTTP 400, RPC status 3)
  and nothing is sent to the broker.
\<close>

theorem C7_registered_device_is_rejected:
  "gw_registryEnabled gw_registered \<and> gw_registryConnected gw_registered \<and>
   gw_GetDevice gw_registered ''D1'' = RpcReply STATUS_SUCCESS (Some
      \<lparr> dm_device_id = Some ''D1'', dm_device_type = Some ''wearable'',
        dm_patient_id = Some ''P1'', dm_status = None, dm_metadata = None,
        dm_registered_at = None, dm_updated_at = None \<rparr>) \<and>
   \<not> verifyDevice gw_registered ''D1'' \<and>
   processTelemetry gw_registered dto_D1
     = ([], Inl (JsError None ''Device D1 not found in registry'')) \<and>
   receiveTelemetry gw_registered dto_D1
     = \<lparr> http_status = 400, body_success = False, body_eventId = None,
         body_message = ''Device D1 not found in registry'' \<rparr> \<and>
   sendMeasurements gw_registered req_D1
     = \<lparr> res_version = ''1.0.0'', res_status = 3,
         res_message = ''Device D1 not found in registry'', res_event_id = [],
         res_timestamp = ''2024-01-15T10:30:01.000Z'' \<rparr>"
  by (simp add: gw_registered_def verifyDevice_def enums_String_def processTelemetry_def
        receiveTelemetry_def sendMeasurements_def transformGrpcToDto_def toLowerCase_def
        dto_D1_def req_D1_def error_status_def Let_def)

text \<open>
  C8. Amended claim: when the publication of an accepted request fails, that is
  \<open>produceRawTelemetry\<close> rejects after its attempts, no event is acknowledged: the
  HTTP surface answers 400 \<open>{success: false, message}\<close> with the error's message
  (it answers 400 to every failure of \<open>processTelemetry\<close>, not only to validation
  failures), and the RPC surface answers with a non-success status, an empty
  \<open>event_id\<close> and the error's message; the status is internal_error (4) whenever
  the message contains neither ``not found'' nor ``validation''.
\<close>

theorem C8_publish_failure_response:
  assumes "verifyDevice gw (deviceId dto)"
      and "transformToKafkaEvent gw dto = Inr event"
      and "produceRawTelemetry gw event = (io, Inl error)"
  shows "receiveTelemetry gw dto =
           \<lparr> http_status = 400, body_success = False, body_eventId = None,
             body_message = err_message error \<rparr> \<and>
         (\<forall>data. transformGrpcToDto gw data = dto \<longrightarrow>
            res_status (sendMeasurements gw data) \<noteq> 1 \<and>
            res_event_id (sendMeasurements gw data) = [] \<and>
            res_message (sendMeasurements gw data) = err_message error \<and>
            (\<not> includes_str (err_message error) ''not found'' \<and>
             \<not> includes_str (err_message error) ''validation'' \<longrightarrow>
               res_status (sendMeasurements gw data) = 4))"
proof -
  have p: "processTelemetry gw dto = (io, Inl error)"
    using processTelemetry_accepted [OF assms] by simp
  then show ?thesis
    by (auto simp: receiveTelemetry_def sendMeasurements_def Let_def error_status_def)
qed

theorem C8_publish_failure_response_witness:
  "verifyDevice gw_broker_down (deviceId dto_D1) \<and>
   transformToKafkaEvent gw_broker_down dto_D1 = Inr raw_D1 \<and>
   produceRawTelemetry gw_broker_down raw_D1 =
     ([KafkaSend 1, Sleep 1000, KafkaSend 2, Sleep 2000, KafkaSend 3],
      Inl (JsError None ''Connection timeout'')) \<and>
   receiveTelemetry gw_broker_down dto_D1 =
     \<lparr> http_status = 400, body_success = False, body_eventId = None,
       body_message = ''Connection timeout'' \<rparr>"
  using C8_publish_failure_response [OF verify_broker_down transform_D1_broker_down
          produce_broker_down]
        verify_broker_down transform_D1_broker_down produce_broker_down
  by simp

text \<open>
  The claim as the spec words it (400 is reserved for validation failures; a
  failed publication gives internal_error) fails on the HTTP surface: a valid
  request whose three send attempts are rejected by the broker is answered 400.
\<close>

theorem C8_http_400_counterexample:
  "snd (produceRawTelemetry gw_broker_down raw_D1) = Inl (JsError None ''Connection timeout'') \<and>
   transformToKafkaEvent gw_broker_down dto_D1 = Inr raw_D1 \<and>
   http_status (receiveTelemetry gw_broker_down dto_D1) = 400"
  by (simp add: produce_broker_down transform_D1_broker_down receiveTelemetry_def
        processTelemetry_def verify_broker_down)

text \<open>
  C9. Amended claim: the Gateway configures its Kafka client with the retry
  options 8 retries, initial retry time 100 ms, multiplier 2, maximal retry time
  30 000 ms, and an idempotent producer with one in-flight request; on top of that
  \<open>produceRawTelemetry\<close> itself makes at most three \<open>send\<close> attempts and waits
  \<open>min(1000 * 2^(attempt - 1), 5000)\<close> ms after a failed one, that is 1000 ms and
  then 2000 ms; when every attempt fails it rejects with the last error.
\<close>

theorem C9_gateway_retry_policy:
  "kafkaConfig_retry =
     \<lparr> retries = 8, initialRetryTime = 100, multiplier = 2, maxRetryTime = 30000 \<rparr> \<and>
   idempotent producerConfig \<and> maxInFlightRequests producerConfig = 1 \<and>
   send_attempts (fst (produceRawTelemetry gw event)) \<in> {[], [1], [1, 2], [1, 2, 3]} \<and>
   sleeps (fst (produceRawTelemetry gw event)) \<in> {[], [1000], [1000, 2000]} \<and>
   (gw_kafkaConnected gw \<and> (\<forall>a. gw_producer_send gw event a \<noteq> None) \<longrightarrow>
      fst (produceRawTelemetry gw event)
        = [KafkaSend 1, Sleep 1000, KafkaSend 2, Sleep 2000, KafkaSend 3] \<and>
      (\<exists>e. gw_producer_send gw event 3 = Some e \<and> snd (produceRawTelemetry gw event) = Inl e))"
  by (auto simp: kafkaConfig_retry_def producerConfig_def produceRawTelemetry_def
        produceRawTelemetry_loop_unroll send_attempts_def sleeps_def split: option.splits)

theorem C9_gateway_retry_policy_witness:
  "gw_kafkaConnected gw_broker_down \<and>
   fst (produceRawTelemetry gw_broker_down raw_D1)
     = [KafkaSend 1, Sleep 1000, KafkaSend 2, Sleep 2000, KafkaSend 3] \<and>
   send_attempts (fst (produceRawTelemetry gw_broker_down raw_D1)) = [1, 2, 3] \<and>
   sleeps (fst (produceRawTelemetry gw_broker_down raw_D1)) = [1000, 2000]"
proof -
  have hyp: "gw_kafkaConnected gw_broker_down \<and>
             (\<forall>a. gw_producer_send gw_broker_down raw_D1 a \<noteq> None)"
    by (simp add: gw_broker_down_def gw_registered_def)
  with C9_gateway_retry_policy [of gw_broker_down raw_D1]
  have "fst (produceRawTelemetry gw_broker_down raw_D1)
          = [KafkaSend 1, Sleep 1000, KafkaSend 2, Sleep 2000, KafkaSend 3]"
    by blast
  with hyp show ?thesis
    by (simp add: send_attempts_def sleeps_def)
qed

text \<open>
  The claim as the spec words it: the wait before retry \<open>n\<close> is
  \<open>min(100 * 2^(n - 1), 30000)\<close> ms and up to 8 attempts are made. Against a broker
  that rejects every send, the gateway's own loop stops after 3 attempts and its
  first wait is 1000 ms.
\<close>

theorem C9_backoff_counterexample:
  "fst (produceRawTelemetry gw_broker_down raw_D1)
     = [KafkaSend 1, Sleep 1000, KafkaSend 2, Sleep 2000, KafkaSend 3] \<and>
   snd (produceRawTelemetry gw_broker_down raw_D1) = Inl (JsError None ''Connection timeout'') \<and>
   spec_retry_delay 1 = 100 \<and> retry_delay 1 = 1000 \<and>
   spec_max_attempts = 8 \<and> maxRetries = 3"
  by (simp add: produceRawTelemetry_def produceRawTelemetry_loop_unroll gw_broker_down_def
        gw_registered_def spec_retry_delay_def retry_delay_def spec_max_attempts_def maxRetries_def)

text \<open>
  C10. When the consumed normalized event has no (truthy) \<open>trace_id\<close>, the enricher
  mints \<open>trace_\<close> followed by a fresh uuid; every enriched event carries a
  non-empty trace id; and the missing field makes no run fail: whenever the
  device lookup returns and the producer accepts, an event is published.
\<close>

theorem C10_trace_id_minted:
  "(enrichTelemetry env ev = (io, Inr out) \<longrightarrow>
      ee_trace_id out \<noteq> [] \<and>
      (\<not> truthy (ne_trace_id ev) \<longrightarrow> ee_trace_id out = ''trace_'' @ uuidv4 env 0)) \<and>
   (\<not> truthy (ne_trace_id ev) \<and> snd (getDevice env (ne_device_id ev)) = Inr device \<and>
    (\<forall>e. produceEnrichedTelemetry env e = None) \<longrightarrow>
      (\<exists>io' out'. enrichTelemetry env ev = (io', Inr out') \<and>
                   ee_trace_id out' = ''trace_'' @ uuidv4 env 0))"
proof (intro conjI impI)
  assume run: "enrichTelemetry env ev = (io, Inr out)"
  then have tr: "ee_trace_id out = or_else (ne_trace_id ev) (''trace_'' @ uuidv4 env 0)"
    by (rule enrichTelemetry_Inr) (simp add: build_trace_id)
  show "ee_trace_id out \<noteq> []"
    unfolding tr by (cases "ne_trace_id ev") simp_all
  show "ee_trace_id out = ''trace_'' @ uuidv4 env 0" if "\<not> truthy (ne_trace_id ev)"
    using that unfolding tr by (cases "ne_trace_id ev") simp_all
next
  assume h: "\<not> truthy (ne_trace_id ev) \<and> snd (getDevice env (ne_device_id ev)) = Inr device \<and>
    (\<forall>e. produceEnrichedTelemetry env e = None)"
  then obtain io1 where gd: "getDevice env (ne_device_id ev) = (io1, Inr device)"
    by (cases "getDevice env (ne_device_id ev)") simp
  obtain io2 pp th srcs where ctx:
    "enrich_context env (ne_device_id ev) (resolve_patient device (ne_patient_id ev))
       = (io2, pp, th, srcs)"
    by (metis prod.exhaust)
  let ?out = "build_enriched_event env ev (fst (resolve_patient device (ne_patient_id ev)))
             (snd (resolve_patient device (ne_patient_id ev))) pp th srcs"
  have "enrichTelemetry env ev = (io1 @ io2, Inr ?out)"
    using gd ctx h by (simp add: enrichTelemetry_def Let_def)
  moreover have "ee_trace_id ?out = ''trace_'' @ uuidv4 env 0"
    using h by (cases "ne_trace_id ev") (simp_all add: build_trace_id)
  ultimately show "\<exists>io' out'. enrichTelemetry env ev = (io', Inr out') \<and>
                   ee_trace_id out' = ''trace_'' @ uuidv4 env 0"
    by blast
qed

theorem C10_trace_id_minted_witness:
  "ne_trace_id ev_D1 = None \<and>
   enrichTelemetry env_empty_registry ev_D1 = ([RpcCall ''GetDevice'' 1], Inr enriched_orphan) \<and>
   ee_trace_id enriched_orphan = ''trace_u0'' \<and> ee_trace_id enriched_orphan \<noteq> []"
proof -
  have nt: "\<not> truthy (ne_trace_id ev_D1)" and nt': "ne_trace_id ev_D1 = None"
    by (simp_all add: ev_D1_def)
  have u: "uuidv4 env_empty_registry 0 = ''u0''"
    by (simp add: env_empty_registry_def)
  from C10_trace_id_minted [of env_empty_registry ev_D1 "[RpcCall ''GetDevice'' 1]"
         enriched_orphan None] run_orphan nt
  have "ee_trace_id enriched_orphan \<noteq> [] \<and>
        ee_trace_id enriched_orphan = ''trace_'' @ uuidv4 env_empty_registry 0"
    by blast
  with run_orphan nt' u show ?thesis by simp
qed

end
